theory Spec2Isabelle
  imports Main
begin

section \<open>Strings\<close>

text \<open>
  Python strings are modelled as \<^typ>\<open>string\<close>, the UTF-8 bytes of the text. The
  substring test \<open>kw in s\<close> and \<open>str(n)\<close> for an integer are written out; on UTF-8
  text the substring test on bytes is the substring test on code points.

  \<open>str.lower\<close> is the Unicode case mapping of the Python library, not code of the
  program. Every operation that calls \<open>.lower()\<close> takes it as its first argument \<open>lw\<close>,
  and every property is proved for every such function, Python's own among them.
  \<open>ascii_lower\<close> below maps the letters A to Z to a to z and nothing else: it is what
  \<open>str.lower\<close> does on ASCII text, and it stands for \<open>lw\<close> where an operation is run on
  an ASCII message.
\<close>

definition lower_char :: "char \<Rightarrow> char" where
  "lower_char c =
     (case map_of (zip ''ABCDEFGHIJKLMNOPQRSTUVWXYZ'' ''abcdefghijklmnopqrstuvwxyz'') c of
        None \<Rightarrow> c
      | Some l \<Rightarrow> l)"

definition ascii_lower :: "string \<Rightarrow> string" where
  "ascii_lower s = map lower_char s"

primrec starts_with :: "string \<Rightarrow> string \<Rightarrow> bool" where
  "starts_with [] kw = (kw = [])"
| "starts_with (c # s) kw = (case kw of [] \<Rightarrow> True | k # ks \<Rightarrow> k = c \<and> starts_with s ks)"

text \<open>\<open>str_contains s kw\<close> is Python's \<open>kw in s\<close>.\<close>

primrec str_contains :: "string \<Rightarrow> string \<Rightarrow> bool" where
  "str_contains [] kw = (kw = [])"
| "str_contains (c # s) kw = (starts_with (c # s) kw \<or> str_contains s kw)"

definition digit_char :: "nat \<Rightarrow> char" where
  "digit_char d = ''0123456789'' ! d"

fun digits :: "nat \<Rightarrow> string" where
  "digits n = (if n < 10 then [digit_char n] else digits (n div 10) @ [digit_char (n mod 10)])"

definition str_int :: "int \<Rightarrow> string" where
  "str_int i = (if i < 0 then CHR ''-'' # digits (nat (- i)) else digits (nat i))"


section \<open>Data model (app/models.py)\<close>

text \<open>
  Timestamps are natural numbers; each operation that reads the clock takes the reading
  as an argument. The surrogate primary keys of the tables are not modelled: a table
  whose \<open>client_id\<close> column is unique is a map from the client id, and every other table is
  the list of its rows in insertion order.
\<close>

datatype TransactionType = PURCHASE | DEDUCT | REFUND | WELCOME

datatype BotStatus = AVAILABLE | ASSIGNED | RETIRED

record AgentConfig =
  cfg_client_id :: int
  agent_name :: string
  personality :: string
  language :: string
  custom_instructions :: "string option"
  compiled_system_prompt :: "string option"
  cfg_updated_at :: nat

record CreditAccount =
  acct_client_id :: int
  balance :: int
  total_purchased :: int
  total_used :: int
  updated_at :: nat

record CreditTransaction =
  txn_client_id :: int
  amount :: int
  txn_type :: TransactionType
  description :: "string option"
  created_at :: nat

record SetupSession =
  ss_client_id :: int
  flow_name :: string
  current_step :: int
  collected_data_json :: "string option"
  started_at :: nat
  completed_at :: "nat option"

record BotPool =
  bot_token :: string
  bot_username :: string
  bot_name :: string
  status :: BotStatus
  assigned_to_client_id :: "int option"
  assigned_at :: "nat option"
  bot_created_at :: nat

record db =
  agent_configs :: "int \<rightharpoonup> AgentConfig"
  credit_accounts :: "int \<rightharpoonup> CreditAccount"
  credit_transactions :: "CreditTransaction list"
  setup_sessions :: "SetupSession list"

definition empty_db :: db where
  "empty_db = \<lparr>agent_configs = Map.empty, credit_accounts = Map.empty,
               credit_transactions = [], setup_sessions = []\<rparr>"


section \<open>CreditManager (app/core/credit_manager.py)\<close>

definition get_balance :: "int \<Rightarrow> db \<Rightarrow> int" where
  "get_balance client_id s =
     (case credit_accounts s client_id of None \<Rightarrow> 0 | Some account \<Rightarrow> balance account)"

definition add_credits :: "(string \<Rightarrow> string) \<Rightarrow> int \<Rightarrow> int \<Rightarrow> string \<Rightarrow> nat \<Rightarrow> db \<Rightarrow> bool \<times> db" where
  "add_credits lw client_id amt source now s =
     (let account =
            (case credit_accounts s client_id of
               None \<Rightarrow> \<lparr>acct_client_id = client_id, balance = amt, total_purchased = amt,
                         total_used = 0, updated_at = now\<rparr>
             | Some a \<Rightarrow> a\<lparr>balance := balance a + amt,
                            total_purchased := total_purchased a + amt,
                            updated_at := now\<rparr>);
          transaction =
            \<lparr>txn_client_id = client_id, amount = amt,
             txn_type = (if str_contains (lw source) ''purchase'' then PURCHASE else WELCOME),
             description = Some source, created_at = now\<rparr>
      in (True, s\<lparr>credit_accounts := (credit_accounts s)(client_id \<mapsto> account),
                   credit_transactions := credit_transactions s @ [transaction]\<rparr>))"

definition deduct_credits :: "int \<Rightarrow> int \<Rightarrow> string \<Rightarrow> nat \<Rightarrow> db \<Rightarrow> bool \<times> db" where
  "deduct_credits client_id amt descr now s =
     (case credit_accounts s client_id of
        None \<Rightarrow> (False, s)
      | Some account \<Rightarrow>
          if balance account < amt then (False, s)
          else
            (let account' = account\<lparr>balance := balance account - amt,
                                     total_used := total_used account + amt,
                                     updated_at := now\<rparr>;
                 transaction = \<lparr>txn_client_id = client_id, amount = - amt, txn_type = DEDUCT,
                                description = Some descr, created_at = now\<rparr>
             in (True, s\<lparr>credit_accounts := (credit_accounts s)(client_id \<mapsto> account'),
                          credit_transactions := credit_transactions s @ [transaction]\<rparr>)))"


section \<open>AgentEngine: credit steps (app/core/agent_engine.py)\<close>

definition check_and_deduct_credits :: "int \<Rightarrow> int \<Rightarrow> nat \<Rightarrow> db \<Rightarrow> bool \<times> db" where
  "check_and_deduct_credits client_id amt now s =
     (case credit_accounts s client_id of
        None \<Rightarrow> (False, s)
      | Some account \<Rightarrow>
          if balance account < amt then (False, s)
          else
            (let account' = account\<lparr>balance := balance account - amt,
                                     total_used := total_used account + amt,
                                     updated_at := now\<rparr>;
                 transaction = \<lparr>txn_client_id = client_id, amount = - amt, txn_type = DEDUCT,
                                description = Some (''Used '' @ str_int amt @ '' credits''),
                                created_at = now\<rparr>
             in (True, s\<lparr>credit_accounts := (credit_accounts s)(client_id \<mapsto> account'),
                          credit_transactions := credit_transactions s @ [transaction]\<rparr>)))"

definition refund_credits :: "int \<Rightarrow> int \<Rightarrow> string \<Rightarrow> nat \<Rightarrow> db \<Rightarrow> db" where
  "refund_credits client_id amt reason now s =
     (case credit_accounts s client_id of
        None \<Rightarrow> s
      | Some account \<Rightarrow>
          (let account' = account\<lparr>balance := balance account + amt,
                                   total_used := total_used account - amt,
                                   updated_at := now\<rparr>;
               transaction = \<lparr>txn_client_id = client_id, amount = amt, txn_type = REFUND,
                              description = Some (''Refund: '' @ reason), created_at = now\<rparr>
           in s\<lparr>credit_accounts := (credit_accounts s)(client_id \<mapsto> account'),
                credit_transactions := credit_transactions s @ [transaction]\<rparr>))"


section \<open>The ledger as a sequence of operations\<close>

datatype ledger_op =
    AddCredits int int string nat
  | DeductCredits int int string nat
  | CheckAndDeduct int int nat
  | Refund int int string nat

fun apply_op :: "(string \<Rightarrow> string) \<Rightarrow> ledger_op \<Rightarrow> db \<Rightarrow> db" where
  "apply_op lw (AddCredits c a src t) s = snd (add_credits lw c a src t s)"
| "apply_op lw (DeductCredits c a d t) s = snd (deduct_credits c a d t s)"
| "apply_op lw (CheckAndDeduct c a t) s = snd (check_and_deduct_credits c a t s)"
| "apply_op lw (Refund c a r t) s = refund_credits c a r t s"

definition run_ops :: "(string \<Rightarrow> string) \<Rightarrow> ledger_op list \<Rightarrow> db \<Rightarrow> db" where
  "run_ops lw ops s = fold (apply_op lw) ops s"

definition tenant_sum :: "int \<Rightarrow> db \<Rightarrow> int" where
  "tenant_sum c s = sum_list (map amount (filter (\<lambda>t. txn_client_id t = c) (credit_transactions s)))"

text \<open>
  The two ledger invariants of a tenant. A tenant with no account has no balance; its
  transaction rows then sum to zero.
\<close>

definition ledger_inv :: "int \<Rightarrow> db \<Rightarrow> bool" where
  "ledger_inv c s =
     (case credit_accounts s c of
        None \<Rightarrow> tenant_sum c s = 0
      | Some a \<Rightarrow> balance a = total_purchased a - total_used a \<and> tenant_sum c s = balance a)"


section \<open>AgentEngine.execute (app/core/agent_engine.py)\<close>

datatype error =
    AttributeError string
  | BotPoolExhaustedException string
  | BaseException string

text \<open>
  A step of the guarded block returns a value, raises an exception of a class derived
  from \<open>Exception\<close> (\<open>RaisesException e\<close>, with \<open>e\<close> the text \<open>str(e)\<close>), or raises one that
  is not derived from it (\<open>RaisesBaseException\<close>: \<open>asyncio.CancelledError\<close> when the task
  is cancelled while it awaits the runtime, \<open>KeyboardInterrupt\<close>, \<open>SystemExit\<close>). The
  handler of the block is \<open>except Exception\<close>, which catches the second kind only.

  The language-model runtime is an external service and the two memory methods are
  placeholders in the source (\<open>_load_memory\<close> returns the empty list, \<open>_save_memory\<close> does
  nothing), so the three steps of the guarded block are parameters.
\<close>

datatype 'a outcome = Returns 'a | RaisesException string | RaisesBaseException string

record runtime =
  load_memory :: "int \<Rightarrow> (string \<times> string) list outcome"
  run :: "string \<Rightarrow> string \<Rightarrow> (string \<times> string) list \<Rightarrow> string outcome"
  save_memory :: "int \<Rightarrow> string \<Rightarrow> string \<Rightarrow> unit outcome"

text \<open>The memory methods as the source has them, around a given runtime.\<close>

definition source_runtime ::
  "(string \<Rightarrow> string \<Rightarrow> (string \<times> string) list \<Rightarrow> string outcome) \<Rightarrow> runtime" where
  "source_runtime r =
     \<lparr>load_memory = (\<lambda>client_id. Returns []), run = r,
      save_memory = (\<lambda>client_id message response. Returns ())\<rparr>"

text \<open>\<open>or_else x d\<close> is Python's \<open>x or d\<close> for an optional string.\<close>

definition or_else :: "string option \<Rightarrow> string \<Rightarrow> string" where
  "or_else x d = (case x of None \<Rightarrow> d | Some v \<Rightarrow> if v = [] then d else v)"

definition load_config :: "int \<Rightarrow> db \<Rightarrow> AgentConfig option" where
  "load_config client_id s = agent_configs s client_id"

text \<open>
  The environment gives the cost settings, already read by \<open>int\<close>; a setting that is not
  a number raises before the deduction and is outside the model.
\<close>

definition getenv_int :: "(string \<rightharpoonup> int) \<Rightarrow> string \<Rightarrow> int \<Rightarrow> int" where
  "getenv_int env name dflt = (case env name of None \<Rightarrow> dflt | Some v \<Rightarrow> v)"

definition get_credit_cost :: "(string \<rightharpoonup> int) \<Rightarrow> string \<Rightarrow> int" where
  "get_credit_cost env channel_type =
     (case map_of
        [(''telegram'', getenv_int env ''COST_TELEGRAM_MSG'' 1),
         (''email'', getenv_int env ''COST_EMAIL'' 2),
         (''voip'', getenv_int env ''COST_VOIP_PER_MIN'' 2),
         (''sms'', getenv_int env ''COST_SMS'' 1),
         (''web_widget'', getenv_int env ''COST_WEB_WIDGET'' 1)] channel_type of
        None \<Rightarrow> 1
      | Some c \<Rightarrow> c)"

definition msg_not_configured :: string where
  "msg_not_configured = ''Error: Agent not configured''"

definition msg_out_of_credits :: string where
  "msg_out_of_credits =
     [CHR 0xE2, CHR 0x9A, CHR 0xA0, CHR 0xEF, CHR 0xB8, CHR 0x8F]
     @ '' You've run out of credits. Reply 'buy credits' to top up.''"

definition msg_apology :: string where
  "msg_apology = ''Sorry, I encountered an error. Please try again.''"

text \<open>The body of the \<open>try\<close> block: load memory, run the runtime, save memory.\<close>

definition try_body :: "runtime \<Rightarrow> AgentConfig \<Rightarrow> int \<Rightarrow> string \<Rightarrow> string outcome" where
  "try_body rt config client_id message =
     (case load_memory rt client_id of
        RaisesException e \<Rightarrow> RaisesException e
      | RaisesBaseException e \<Rightarrow> RaisesBaseException e
      | Returns memory \<Rightarrow>
          (case run rt (or_else (compiled_system_prompt config) ''You are a helpful AI assistant.'')
                  message memory of
             RaisesException e \<Rightarrow> RaisesException e
           | RaisesBaseException e \<Rightarrow> RaisesBaseException e
           | Returns response \<Rightarrow>
               (case save_memory rt client_id message response of
                  RaisesException e \<Rightarrow> RaisesException e
                | RaisesBaseException e \<Rightarrow> RaisesBaseException e
                | Returns _ \<Rightarrow> Returns response)))"

text \<open>
  \<open>now\<close> is the clock at the deduction and \<open>later\<close> the clock at the refund. An exception
  that \<open>except Exception\<close> does not catch leaves \<open>execute\<close> as it is, after the deduction
  has been committed.
\<close>

definition execute ::
  "runtime \<Rightarrow> (string \<rightharpoonup> int) \<Rightarrow> int \<Rightarrow> string \<Rightarrow> string \<Rightarrow> nat \<Rightarrow> nat \<Rightarrow> db
     \<Rightarrow> (error + string) \<times> db" where
  "execute rt env client_id message channel_type now later s =
     (case load_config client_id s of
        None \<Rightarrow> (Inr msg_not_configured, s)
      | Some config \<Rightarrow>
          (let credit_cost = get_credit_cost env channel_type in
           case check_and_deduct_credits client_id credit_cost now s of
             (False, s1) \<Rightarrow> (Inr msg_out_of_credits, s1)
           | (True, s1) \<Rightarrow>
               (case try_body rt config client_id message of
                  Returns response \<Rightarrow> (Inr response, s1)
                | RaisesException e \<Rightarrow>
                    (Inr msg_apology,
                     refund_credits client_id credit_cost (''Error: '' @ e) later s1)
                | RaisesBaseException e \<Rightarrow> (Inl (BaseException e), s1))))"


section \<open>ConversationRouter (app/core/router.py)\<close>

datatype Intent = SETUP | TASK | ACCOUNT | HELP

text \<open>The constant confidence score of a response is a float and is left out.\<close>

record RouterResponse =
  intent :: Intent
  handler :: string

definition SETUP_KEYWORDS :: "string list" where
  "SETUP_KEYWORDS =
     [''connect'', ''add'', ''change'', ''configure'', ''set up'', ''link'',
      ''integrate'', ''setup'', ''install'', ''enable'', ''activate'']"

definition ACCOUNT_KEYWORDS :: "string list" where
  "ACCOUNT_KEYWORDS =
     [''credits'', ''balance'', ''buy'', ''purchase'', ''payment'',
      ''subscription'', ''plan'', ''billing'', ''how many credits'']"

definition HELP_KEYWORDS :: "string list" where
  "HELP_KEYWORDS =
     [''help'', ''what can you'', ''how do i'', ''how to'', ''?'',
      ''explain'', ''assist'', ''support'']"

definition TASK_KEYWORDS :: "string list" where
  "TASK_KEYWORDS =
     [''help me'', ''send'', ''find'', ''create'', ''book'', ''write'',
      ''make'', ''get'', ''show'', ''tell me'', ''do'']"

definition classify_intent :: "(string \<Rightarrow> string) \<Rightarrow> string \<Rightarrow> Intent" where
  "classify_intent lw message =
     (let message_lower = lw message in
      if list_ex (str_contains message_lower) SETUP_KEYWORDS then SETUP
      else if list_ex (str_contains message_lower) ACCOUNT_KEYWORDS then ACCOUNT
      else if list_ex (str_contains message_lower) HELP_KEYWORDS then HELP
      else TASK)"

definition handler_map :: "Intent \<Rightarrow> string" where
  "handler_map i =
     (case i of SETUP \<Rightarrow> ''SetupOrchestrator'' | TASK \<Rightarrow> ''AgentEngine''
      | ACCOUNT \<Rightarrow> ''AccountManager'' | HELP \<Rightarrow> ''HelpResponder'')"

definition route :: "(string \<Rightarrow> string) \<Rightarrow> int \<Rightarrow> string \<Rightarrow> string \<Rightarrow> RouterResponse" where
  "route lw client_id message channel =
     (let i = classify_intent lw message in \<lparr>intent = i, handler = handler_map i\<rparr>)"


section \<open>SetupOrchestrator (app/core/setup.py)\<close>

datatype flow = VoIPSetupFlow | PersonalitySetupFlow

definition flows :: "string \<Rightarrow> flow option" where
  "flows name =
     (case map_of
        [(''voip'', Some VoIPSetupFlow), (''sms'', None), (''calendar'', None),
         (''email'', None), (''crm'', None), (''web_widget'', None),
         (''personality'', Some PersonalitySetupFlow)] name of
        None \<Rightarrow> None
      | Some flow_class \<Rightarrow> flow_class)"

fun steps :: "flow \<Rightarrow> string list" where
  "steps VoIPSetupFlow =
     [''Do you have a VoIP number or should I create one for you? (reply: 'have' or 'create')'',
      ''What should I say when I answer calls?'',
      ''Great! I'll configure this now.'']"
| "steps PersonalitySetupFlow =
     [''What's your agent's name?'',
      ''How should it communicate? (formal / friendly / brief)'',
      ''What's your business about? Describe it in a few words.'',
      ''Any specific instructions? (languages, things to avoid, etc.)'']"

text \<open>
  \<open>validate\<close> returns the pair \<open>(is_valid, error_message)\<close> in the source; the flows
  return either \<open>(True, None)\<close>, here \<open>None\<close>, or \<open>(False, message)\<close>, here \<open>Some message\<close>.
\<close>

fun validate :: "(string \<Rightarrow> string) \<Rightarrow> flow \<Rightarrow> int \<Rightarrow> string \<Rightarrow> string option" where
  "validate lw VoIPSetupFlow step user_input =
     (if step = 0 \<and> lw user_input \<notin> set [''have'', ''create'']
      then Some ''Please reply 'have' if you have a number, or 'create' if you need one.''
      else None)"
| "validate lw PersonalitySetupFlow step user_input =
     (if step = 1 \<and> lw user_input \<notin> set [''formal'', ''friendly'', ''brief'']
      then Some ''Please choose: formal, friendly, or brief''
      else None)"

text \<open>\<open>get_step_message\<close> is called with a step that is not negative.\<close>

definition get_step_message :: "flow \<Rightarrow> nat \<Rightarrow> string" where
  "get_step_message f step = (if step < length (steps f) then steps f ! step else ''Setup complete!'')"

primrec first_index :: "('a \<Rightarrow> bool) \<Rightarrow> 'a list \<Rightarrow> nat option" where
  "first_index P [] = None"
| "first_index P (x # xs) = (if P x then Some 0 else map_option Suc (first_index P xs))"

text \<open>The active session of a client, as the index of its row.\<close>

definition get_active_session :: "int \<Rightarrow> db \<Rightarrow> nat option" where
  "get_active_session client_id s =
     first_index (\<lambda>r. ss_client_id r = client_id \<and> completed_at r = None) (setup_sessions s)"

definition detect_flow :: "(string \<Rightarrow> string) \<Rightarrow> string \<Rightarrow> string option" where
  "detect_flow lw message =
     (let message_lower = lw message in
      if list_ex (str_contains message_lower) [''phone'', ''voip'', ''call'', ''number'']
      then Some ''voip''
      else if list_ex (str_contains message_lower)
                [''personality'', ''name'', ''style'', ''character'']
      then Some ''personality''
      else None)"

definition msg_menu :: string where
  "msg_menu = ''I can help you set up: phone (VoIP), email, calendar, or customize my personality. Which would you like?''"

definition msg_cancelled :: string where
  "msg_cancelled = ''Setup cancelled. You can start again anytime by saying 'setup'.''"

text \<open>
  \<open>_start_flow\<close> passes \<open>collected_data="{}"\<close> to the constructor of \<open>SetupSession\<close>. The
  model class declares no such field (its column is \<open>collected_data_json\<close>), the
  constructor drops the argument, and the new row has the column's default.
\<close>

definition start_flow :: "int \<Rightarrow> string \<Rightarrow> nat \<Rightarrow> db \<Rightarrow> (error + string) \<times> db" where
  "start_flow client_id name now s =
     (case flows name of
        None \<Rightarrow> (Inr (''Sorry, I don't know how to set up '' @ name @ '' yet.''), s)
      | Some f \<Rightarrow>
          (let setup_session =
                 \<lparr>ss_client_id = client_id, flow_name = name, current_step = 0,
                  collected_data_json = None, started_at = now, completed_at = None\<rparr>
           in (Inr (get_step_message f 0),
               s\<lparr>setup_sessions := setup_sessions s @ [setup_session]\<rparr>)))"

text \<open>
  \<open>_continue_flow\<close> on the session row at index \<open>i\<close>. After the cancel check and the
  validation, the source reads \<open>setup_session.collected_data\<close>. \<open>SetupSession\<close> has no
  attribute of that name (the column is \<open>collected_data_json\<close>), so the read raises
  \<open>AttributeError\<close>, before the answer is stored, the step advanced or anything
  committed. The statements after the read are never reached and have no counterpart
  here.
\<close>

definition continue_flow :: "(string \<Rightarrow> string) \<Rightarrow> int \<Rightarrow> nat \<Rightarrow> string \<Rightarrow> nat \<Rightarrow> db \<Rightarrow> (error + string) \<times> db" where
  "continue_flow lw client_id i message now s =
     (let setup_session = setup_sessions s ! i in
      if lw message \<in> set [''cancel'', ''stop'', ''exit'']
      then (Inr msg_cancelled,
            s\<lparr>setup_sessions := (setup_sessions s)[i := setup_session\<lparr>completed_at := Some now\<rparr>]\<rparr>)
      else
        (case flows (flow_name setup_session) of
           None \<Rightarrow> (Inr ''Error: Unknown setup flow.'', s)
         | Some f \<Rightarrow>
             (case validate lw f (current_step setup_session) message of
                Some err \<Rightarrow> (Inr err, s)
              | None \<Rightarrow> (Inl (AttributeError ''collected_data''), s))))"

definition handle :: "(string \<Rightarrow> string) \<Rightarrow> int \<Rightarrow> string \<Rightarrow> nat \<Rightarrow> db \<Rightarrow> (error + string) \<times> db" where
  "handle lw client_id message now s =
     (case get_active_session client_id s of
        Some i \<Rightarrow> continue_flow lw client_id i message now s
      | None \<Rightarrow>
          (case detect_flow lw message of
             Some name \<Rightarrow> start_flow client_id name now s
           | None \<Rightarrow> (Inr msg_menu, s)))"


section \<open>Dispatch (app/routers/webhooks.py)\<close>

definition dispatch_incoming_message ::
  "(string \<Rightarrow> string) \<Rightarrow> runtime \<Rightarrow> (string \<rightharpoonup> int) \<Rightarrow> int \<Rightarrow> string \<Rightarrow> string \<Rightarrow> nat \<Rightarrow> nat \<Rightarrow> db
     \<Rightarrow> (error + string) \<times> db" where
  "dispatch_incoming_message lw rt env client_id text channel_type now later s =
     (let route_result = route lw client_id text channel_type in
      if handler route_result = ''SetupOrchestrator'' then handle lw client_id text now s
      else if handler route_result = ''AccountManager''
      then (Inr (''You currently have '' @ str_int (get_balance client_id s) @ '' credits.''), s)
      else if handler route_result = ''HelpResponder''
      then (Inr ''I can help with setup, tasks, and account questions. Ask me anything.'', s)
      else execute rt env client_id text channel_type now later s)"


section \<open>SystemPromptCompiler (app/core/compiler.py)\<close>

definition personality_styles :: "string \<rightharpoonup> string" where
  "personality_styles =
     map_of [(''formal'', ''professional, formal, and business-like''),
             (''friendly'', ''warm, friendly, and approachable''),
             (''brief'', ''concise, brief, and to-the-point'')]"

text \<open>The white space that \<open>str.strip\<close> removes, within ASCII.\<close>

definition is_space :: "char \<Rightarrow> bool" where
  "is_space c = (c \<in> set [CHR 0x20, CHR 0x09, CHR 0x0A, CHR 0x0B, CHR 0x0C, CHR 0x0D,
                           CHR 0x1C, CHR 0x1D, CHR 0x1E, CHR 0x1F])"

definition str_strip :: "string \<Rightarrow> string" where
  "str_strip s = rev (dropWhile is_space (rev (dropWhile is_space s)))"

definition compile :: "AgentConfig \<Rightarrow> string" where
  "compile config =
     (let style = (case personality_styles (personality config) of
                     None \<Rightarrow> ''helpful and professional''
                   | Some st \<Rightarrow> st);
          prompt =
            ''You are '' @ agent_name config @ ''.\<newline>''
            @ ''\<newline>''
            @ ''Communication style: '' @ style @ ''\<newline>''
            @ ''Primary language: '' @ language config @ ''\<newline>''
            @ ''\<newline>''
            @ ''About the business:\<newline>''
            @ or_else (custom_instructions config)
                ''I help businesses automate their operations with AI.'' @ ''\<newline>''
            @ ''\<newline>''
            @ ''Guidelines:\<newline>''
            @ ''- Always be helpful, concise, and stay in character\<newline>''
            @ ''- If you cannot help with something, say so clearly and suggest alternatives\<newline>''
            @ ''- Remember: users configure everything by talking to you\<newline>''
            @ ''- Guide them through setup naturally\<newline>''
            @ ''- Be proactive in suggesting next steps\<newline>''
      in str_strip prompt)"


section \<open>BotPoolManager (app/core/bot_pool.py)\<close>

text \<open>
  The pool is the list of its rows in insertion order, and a query returns the rows it
  selects in that order.
\<close>

definition claim_bot :: "int \<Rightarrow> nat \<Rightarrow> BotPool list \<Rightarrow> (error + BotPool) \<times> BotPool list" where
  "claim_bot client_id now pool =
     (case first_index (\<lambda>b. status b = AVAILABLE) pool of
        None \<Rightarrow> (Inl (BotPoolExhaustedException ''No bots available in pool''), pool)
      | Some i \<Rightarrow>
          (let bot = (pool ! i)\<lparr>status := ASSIGNED, assigned_to_client_id := Some client_id,
                                 assigned_at := Some now\<rparr>
           in (Inr bot, pool[i := bot])))"


section \<open>Example states\<close>

definition ledger_example :: db where
  "ledger_example = empty_db\<lparr>credit_accounts :=
      [1 \<mapsto> \<lparr>acct_client_id = 1, balance = 2, total_purchased = 5, total_used = 3,
              updated_at = 0\<rparr>]\<rparr>"


text \<open>The transaction rows that a step from \<open>s\<close> to \<open>s'\<close> has appended.\<close>

definition new_transactions :: "db \<Rightarrow> db \<Rightarrow> CreditTransaction list" where
  "new_transactions s s' = drop (length (credit_transactions s)) (credit_transactions s')"

definition echo_runtime :: runtime where
  "echo_runtime = source_runtime (\<lambda>system_prompt message memory. Returns (''echo: '' @ message))"

definition failing_runtime :: runtime where
  "failing_runtime = source_runtime (\<lambda>system_prompt message memory. RaisesException ''timeout'')"

text \<open>A runtime whose call is cancelled while the engine awaits it.\<close>

definition cancelled_runtime :: runtime where
  "cancelled_runtime =
     source_runtime (\<lambda>system_prompt message memory. RaisesBaseException ''CancelledError'')"

definition config_example :: AgentConfig where
  "config_example =
     \<lparr>cfg_client_id = 1, agent_name = ''Alfred'', personality = ''formal'', language = ''en'',
      custom_instructions = None, compiled_system_prompt = None, cfg_updated_at = 0\<rparr>"

definition tenant_example :: db where
  "tenant_example =
     \<lparr>agent_configs = [1 \<mapsto> config_example],
      credit_accounts = [1 \<mapsto> \<lparr>acct_client_id = 1, balance = 1, total_purchased = 1,
                                 total_used = 0, updated_at = 0\<rparr>],
      credit_transactions = [\<lparr>txn_client_id = 1, amount = 1, txn_type = WELCOME,
                               description = Some ''Welcome bonus'', created_at = 0\<rparr>],
      setup_sessions = []\<rparr>"

definition bot :: "string \<Rightarrow> BotStatus \<Rightarrow> int option \<Rightarrow> nat \<Rightarrow> BotPool" where
  "bot name st owner t =
     \<lparr>bot_token = ''enc:'' @ name, bot_username = name, bot_name = name, status = st,
      assigned_to_client_id = owner, assigned_at = map_option (\<lambda>_. t) owner,
      bot_created_at = t\<rparr>"

definition pool_example :: "BotPool list" where
  "pool_example = [bot ''a_bot'' ASSIGNED (Some 3) 1, bot ''b_bot'' AVAILABLE None 2,
                   bot ''c_bot'' AVAILABLE None 3]"

definition pool_exhausted :: "BotPool list" where
  "pool_exhausted = [bot ''a_bot'' ASSIGNED (Some 3) 1, bot ''b_bot'' RETIRED None 2]"


definition setup_example :: db where
  "setup_example =
     empty_db\<lparr>setup_sessions :=
       [\<lparr>ss_client_id = 1, flow_name = ''personality'', current_step = 0,
         collected_data_json = None, started_at = 3, completed_at = None\<rparr>]\<rparr>"

definition cancelled_example :: db where
  "cancelled_example =
     empty_db\<lparr>setup_sessions :=
       [\<lparr>ss_client_id = 1, flow_name = ''personality'', current_step = 0,
         collected_data_json = None, started_at = 3, completed_at = Some 5\<rparr>]\<rparr>"


section \<open>Ledger properties\<close>

lemma ledger_inv_add:
  "ledger_inv c s \<Longrightarrow> ledger_inv c (snd (add_credits lw c' a src t s))"
  by (auto simp: ledger_inv_def add_credits_def tenant_sum_def Let_def split: option.splits)

lemma ledger_inv_deduct:
  "ledger_inv c s \<Longrightarrow> ledger_inv c (snd (deduct_credits c' a d t s))"
  by (auto simp: ledger_inv_def deduct_credits_def tenant_sum_def Let_def split: option.splits)

lemma ledger_inv_check_and_deduct:
  "ledger_inv c s \<Longrightarrow> ledger_inv c (snd (check_and_deduct_credits c' a t s))"
  by (auto simp: ledger_inv_def check_and_deduct_credits_def tenant_sum_def Let_def
           split: option.splits)

lemma ledger_inv_refund:
  "ledger_inv c s \<Longrightarrow> ledger_inv c (refund_credits c' a r t s)"
  by (auto simp: ledger_inv_def refund_credits_def tenant_sum_def Let_def split: option.splits)

lemma ledger_inv_apply_op: "ledger_inv c s \<Longrightarrow> ledger_inv c (apply_op lw op s)"
  by (cases op)
     (simp_all add: ledger_inv_add ledger_inv_deduct ledger_inv_check_and_deduct ledger_inv_refund)

lemma ledger_inv_fold: "ledger_inv c s \<Longrightarrow> ledger_inv c (fold (apply_op lw) ops s)"
  by (induction ops arbitrary: s) (simp_all add: ledger_inv_apply_op)

lemma ledger_inv_empty: "ledger_inv c empty_db"
  by (simp add: ledger_inv_def empty_db_def tenant_sum_def)

text \<open>
  Claim C2. For every tenant that starts with no credit account (and so with no
  transaction rows), every sequence of \<open>add_credits\<close>, \<open>deduct_credits\<close>, the engine's
  check-and-deduct and refund operations, on this or any other tenant, leaves the
  tenant's ledger with \<open>balance = total_purchased - total_used\<close> and with the amounts
  of its transaction rows summing to the balance.
\<close>

theorem ledger_invariant:
  assumes "credit_accounts s c = None"
    and "\<forall>t \<in> set (credit_transactions s). txn_client_id t \<noteq> c"
  shows "ledger_inv c (run_ops lw ops s)"
proof -
  have "filter (\<lambda>t. txn_client_id t = c) (credit_transactions s) = []"
    using assms(2) by (simp add: filter_empty_conv)
  then have "ledger_inv c s"
    using assms(1) by (simp add: ledger_inv_def tenant_sum_def)
  then show ?thesis
    unfolding run_ops_def by (rule ledger_inv_fold)
qed

theorem ledger_invariant_witness:
  "credit_accounts empty_db 1 = None
   \<and> credit_transactions empty_db = []
   \<and> ledger_inv 1 (run_ops ascii_lower [AddCredits 1 10 ''Welcome bonus'' 0, CheckAndDeduct 1 1 1,
                              Refund 1 1 ''Error: timeout'' 2, DeductCredits 1 3 ''sms'' 3,
                              AddCredits 2 5 ''Stripe purchase'' 4] empty_db)
   \<and> get_balance 1 (run_ops ascii_lower [AddCredits 1 10 ''Welcome bonus'' 0, CheckAndDeduct 1 1 1,
                              Refund 1 1 ''Error: timeout'' 2, DeductCredits 1 3 ''sms'' 3,
                              AddCredits 2 5 ''Stripe purchase'' 4] empty_db) = 7"
  using ledger_invariant [where lw = ascii_lower and s = empty_db and c = 1 and ops = "[AddCredits 1 10 ''Welcome bonus'' 0, CheckAndDeduct 1 1 1,
                              Refund 1 1 ''Error: timeout'' 2, DeductCredits 1 3 ''sms'' 3,
                              AddCredits 2 5 ''Stripe purchase'' 4]"]
  by (simp add: empty_db_def run_ops_def add_credits_def check_and_deduct_credits_def
        refund_credits_def deduct_credits_def get_balance_def Let_def)

text \<open>
  Claim C3. A deduction (\<open>CreditManager.deduct_credits\<close> and the engine's
  \<open>_check_and_deduct_credits\<close> alike) returns false and leaves the whole state as it was
  when the tenant has no account or a balance below the amount. Otherwise it returns
  true, and the one new state has the balance lowered by the amount, \<open>total_used\<close>
  raised by the amount and one DEDUCT row of the negated amount appended, with nothing
  else changed but the account's time stamp.
\<close>

theorem deduct_fails_closed_or_applies:
  "(credit_accounts s c = None \<longrightarrow>
      deduct_credits c amt d now s = (False, s)
      \<and> check_and_deduct_credits c amt now s = (False, s))
   \<and> (\<forall>a. credit_accounts s c = Some a \<and> balance a < amt \<longrightarrow>
      deduct_credits c amt d now s = (False, s)
      \<and> check_and_deduct_credits c amt now s = (False, s))
   \<and> (\<forall>a. credit_accounts s c = Some a \<and> amt \<le> balance a \<longrightarrow>
        (let a' = a\<lparr>balance := balance a - amt, total_used := total_used a + amt,
                    updated_at := now\<rparr>;
             row = (\<lambda>text. \<lparr>txn_client_id = c, amount = - amt, txn_type = DEDUCT,
                            description = Some text, created_at = now\<rparr>)
         in deduct_credits c amt d now s =
              (True, s\<lparr>credit_accounts := (credit_accounts s)(c \<mapsto> a'),
                       credit_transactions := credit_transactions s @ [row d]\<rparr>)
            \<and> check_and_deduct_credits c amt now s =
              (True, s\<lparr>credit_accounts := (credit_accounts s)(c \<mapsto> a'),
                       credit_transactions := credit_transactions s
                          @ [row (''Used '' @ str_int amt @ '' credits'')]\<rparr>)))"
  by (simp add: deduct_credits_def check_and_deduct_credits_def Let_def)

theorem deduct_fails_closed_or_applies_witness:
  "credit_accounts ledger_example 7 = None
   \<and> deduct_credits 7 1 ''sms'' 9 ledger_example = (False, ledger_example)
   \<and> credit_accounts ledger_example 1 =
       Some \<lparr>acct_client_id = 1, balance = 2, total_purchased = 5, total_used = 3, updated_at = 0\<rparr>
   \<and> fst (check_and_deduct_credits 1 3 9 ledger_example) = False
   \<and> fst (deduct_credits 1 2 ''sms'' 9 ledger_example) = True
   \<and> credit_accounts (snd (deduct_credits 1 2 ''sms'' 9 ledger_example)) 1 =
       Some \<lparr>acct_client_id = 1, balance = 0, total_purchased = 5, total_used = 5, updated_at = 9\<rparr>
   \<and> credit_transactions (snd (deduct_credits 1 2 ''sms'' 9 ledger_example)) =
       [\<lparr>txn_client_id = 1, amount = - 2, txn_type = DEDUCT, description = Some ''sms'',
         created_at = 9\<rparr>]"
  using deduct_fails_closed_or_applies [of ledger_example 7 1 "''sms''" 9]
    deduct_fails_closed_or_applies [of ledger_example 1 3 "''sms''" 9]
    deduct_fails_closed_or_applies [of ledger_example 1 2 "''sms''" 9]
  by (simp add: ledger_example_def empty_db_def Let_def)

section \<open>Router properties\<close>

lemma starts_with_iff: "starts_with s kw \<longleftrightarrow> (\<exists>q. s = kw @ q)"
proof (induction s arbitrary: kw)
  case Nil
  then show ?case by simp
next
  case (Cons c s)
  then show ?case by (cases kw) auto
qed

lemma str_contains_iff: "str_contains s kw \<longleftrightarrow> (\<exists>p q. s = p @ kw @ q)"
proof (induction s)
  case Nil
  then show ?case by simp
next
  case (Cons c s)
  show ?case
  proof
    assume "str_contains (c # s) kw"
    then consider "starts_with (c # s) kw" | "str_contains s kw" by auto
    then show "\<exists>p q. c # s = p @ kw @ q"
    proof cases
      case 1
      then obtain q where "c # s = kw @ q" using starts_with_iff by blast
      then have "c # s = [] @ kw @ q" by simp
      then show ?thesis by blast
    next
      case 2
      then obtain p q where "s = p @ kw @ q" using Cons.IH by blast
      then have "c # s = (c # p) @ kw @ q" by simp
      then show ?thesis by blast
    qed
  next
    assume "\<exists>p q. c # s = p @ kw @ q"
    then obtain p q where pq: "c # s = p @ kw @ q" by blast
    show "str_contains (c # s) kw"
    proof (cases p)
      case Nil
      with pq have "starts_with (c # s) kw" using starts_with_iff by auto
      then show ?thesis by simp
    next
      case (Cons a p')
      with pq have "s = p' @ kw @ q" by simp
      then have "str_contains s kw" using Cons.IH by blast
      then show ?thesis by simp
    qed
  qed
qed

lemma list_ex_contains:
  "list_ex (str_contains s) kws \<longleftrightarrow> (\<exists>k \<in> set kws. \<exists>p q. s = p @ k @ q)"
  by (simp add: list_ex_iff str_contains_iff)

text \<open>
  A message outside ASCII: "lin", the Kelvin sign U+212A, " my calendar". \<open>str.lower\<close>
  maps the Kelvin sign to "k", and the message is a Setup message (keyword "link").
\<close>

lemma classify_kelvin_sign:
  assumes "lw (''lin'' @ [CHR 0xE2, CHR 0x84, CHR 0xAA] @ '' my calendar'') = ''link my calendar''"
  shows "classify_intent lw (''lin'' @ [CHR 0xE2, CHR 0x84, CHR 0xAA] @ '' my calendar'') = SETUP"
  using assms by (simp add: classify_intent_def SETUP_KEYWORDS_def)

text \<open>
  Claim C8. \<open>classify_intent\<close> lower-cases the message with \<open>str.lower\<close> and looks for a
  keyword as a substring: a Setup keyword gives Setup; otherwise an Account keyword gives
  Account; otherwise a Help keyword gives Help; otherwise the intent is Task. This holds
  for every message and whatever \<open>str.lower\<close> does to it. Messages with the same
  lower-casing get the same intent, every keyword is written in lower case (so a keyword
  matches however the message capitalises it), and "please connect my calendar", which
  \<open>str.lower\<close> leaves as it is, is a Setup message.
\<close>

theorem classify_priority:
  "classify_intent lw m =
     (if \<exists>k \<in> set SETUP_KEYWORDS. \<exists>p q. lw m = p @ k @ q then SETUP
      else if \<exists>k \<in> set ACCOUNT_KEYWORDS. \<exists>p q. lw m = p @ k @ q then ACCOUNT
      else if \<exists>k \<in> set HELP_KEYWORDS. \<exists>p q. lw m = p @ k @ q then HELP
      else TASK)
   \<and> (lw m = lw m' \<longrightarrow> classify_intent lw m = classify_intent lw m')
   \<and> list_all (\<lambda>k. ascii_lower k = k) (SETUP_KEYWORDS @ ACCOUNT_KEYWORDS @ HELP_KEYWORDS)
   \<and> (lw ''please connect my calendar'' = ''please connect my calendar'' \<longrightarrow>
        classify_intent lw ''please connect my calendar'' = SETUP)"
proof (intro conjI)
  show "classify_intent lw m =
     (if \<exists>k \<in> set SETUP_KEYWORDS. \<exists>p q. lw m = p @ k @ q then SETUP
      else if \<exists>k \<in> set ACCOUNT_KEYWORDS. \<exists>p q. lw m = p @ k @ q then ACCOUNT
      else if \<exists>k \<in> set HELP_KEYWORDS. \<exists>p q. lw m = p @ k @ q then HELP
      else TASK)"
    unfolding classify_intent_def Let_def list_ex_contains by (rule refl)
  show "lw m = lw m' \<longrightarrow> classify_intent lw m = classify_intent lw m'"
    by (simp add: classify_intent_def)
  show "list_all (\<lambda>k. ascii_lower k = k) (SETUP_KEYWORDS @ ACCOUNT_KEYWORDS @ HELP_KEYWORDS)"
    by (simp add: SETUP_KEYWORDS_def ACCOUNT_KEYWORDS_def HELP_KEYWORDS_def ascii_lower_def
          lower_char_def)
  show "lw ''please connect my calendar'' = ''please connect my calendar'' \<longrightarrow>
        classify_intent lw ''please connect my calendar'' = SETUP"
    by (simp add: classify_intent_def SETUP_KEYWORDS_def)
qed

theorem classify_priority_witness:
  "ascii_lower ''Check my BALANCE'' = ascii_lower ''check my balance''
   \<and> classify_intent ascii_lower ''Check my BALANCE'' =
       classify_intent ascii_lower ''check my balance''
   \<and> ascii_lower ''please connect my calendar'' = ''please connect my calendar''
   \<and> classify_intent ascii_lower ''please connect my calendar'' = SETUP
   \<and> classify_intent ascii_lower ''check my balance'' = ACCOUNT
   \<and> classify_intent ascii_lower ''What can you do'' = HELP
   \<and> classify_intent ascii_lower ''remind me at noon'' = TASK"
  using classify_priority [where lw = ascii_lower and m = "''Check my BALANCE''"
      and m' = "''check my balance''"]
  by (simp add: classify_intent_def SETUP_KEYWORDS_def ACCOUNT_KEYWORDS_def HELP_KEYWORDS_def
        ascii_lower_def lower_char_def)


section \<open>Bot pool properties\<close>

lemma first_index_None: "first_index P xs = None \<longleftrightarrow> (\<forall>x \<in> set xs. \<not> P x)"
  by (induction xs) auto

lemma first_index_Some:
  "first_index P xs = Some i \<Longrightarrow> i < length xs \<and> P (xs ! i) \<and> (\<forall>j < i. \<not> P (xs ! j))"
proof (induction xs arbitrary: i)
  case Nil
  then show ?case by simp
next
  case (Cons x xs)
  show ?case
  proof (cases "P x")
    case True
    with Cons.prems show ?thesis by simp
  next
    case False
    with Cons.prems obtain k where k: "first_index P xs = Some k" "i = Suc k" by auto
    from Cons.IH [OF k(1)] have ih: "k < length xs" "P (xs ! k)" "\<forall>j < k. \<not> P (xs ! j)"
      by simp_all
    have "\<forall>j < Suc k. \<not> P ((x # xs) ! j)"
    proof (intro allI impI)
      fix j assume "j < Suc k"
      then show "\<not> P ((x # xs) ! j)" using False ih(3) by (cases j) simp_all
    qed
    with ih k show ?thesis by simp
  qed
qed

lemma first_index_least:
  assumes "i < length xs" and "P (xs ! i)" and "\<forall>j < i. \<not> P (xs ! j)"
  shows "first_index P xs = Some i"
proof -
  have "first_index P xs \<noteq> None"
    using assms(1,2) by (auto simp: first_index_None)
  then obtain k where k: "first_index P xs = Some k" by blast
  from first_index_Some [OF k] have "P (xs ! k)" and "\<forall>j < k. \<not> P (xs ! j)" by simp_all
  with assms(2,3) have "\<not> k < i" and "\<not> i < k" by auto
  then have "k = i" by simp
  with k show ?thesis by simp
qed

text \<open>
  Claim C6. When row \<open>i\<close> of the pool is available and no earlier row is, \<open>claim_bot\<close>
  returns that row as assigned to the claiming client and changes that row only; a pool
  with an available row always yields a bot. When no row is available, \<open>claim_bot\<close>
  raises \<open>BotPoolExhaustedException\<close>, an exception class of its own, and the pool is as
  it was.
\<close>

theorem claim_bot_first_available:
  "(i < length pool \<and> status (pool ! i) = AVAILABLE
      \<and> (\<forall>j < i. status (pool ! j) \<noteq> AVAILABLE) \<longrightarrow>
      claim_bot c now pool =
        (Inr ((pool ! i)\<lparr>status := ASSIGNED, assigned_to_client_id := Some c,
                          assigned_at := Some now\<rparr>),
         pool[i := (pool ! i)\<lparr>status := ASSIGNED, assigned_to_client_id := Some c,
                               assigned_at := Some now\<rparr>]))
   \<and> ((\<exists>b \<in> set pool. status b = AVAILABLE) \<longrightarrow>
        (\<exists>b. fst (claim_bot c now pool) = Inr b))
   \<and> ((\<forall>b \<in> set pool. status b \<noteq> AVAILABLE) \<longrightarrow>
        claim_bot c now pool =
          (Inl (BotPoolExhaustedException ''No bots available in pool''), pool))"
proof (intro conjI impI)
  assume "i < length pool \<and> status (pool ! i) = AVAILABLE
      \<and> (\<forall>j < i. status (pool ! j) \<noteq> AVAILABLE)"
  then have "first_index (\<lambda>b. status b = AVAILABLE) pool = Some i"
    by (intro first_index_least) simp_all
  then show "claim_bot c now pool =
        (Inr ((pool ! i)\<lparr>status := ASSIGNED, assigned_to_client_id := Some c,
                          assigned_at := Some now\<rparr>),
         pool[i := (pool ! i)\<lparr>status := ASSIGNED, assigned_to_client_id := Some c,
                               assigned_at := Some now\<rparr>])"
    by (simp add: claim_bot_def Let_def)
next
  assume "\<exists>b \<in> set pool. status b = AVAILABLE"
  then have "first_index (\<lambda>b. status b = AVAILABLE) pool \<noteq> None"
    by (simp add: first_index_None)
  then show "\<exists>b. fst (claim_bot c now pool) = Inr b"
    by (auto simp: claim_bot_def Let_def)
next
  assume "\<forall>b \<in> set pool. status b \<noteq> AVAILABLE"
  then have "first_index (\<lambda>b. status b = AVAILABLE) pool = None"
    by (simp add: first_index_None)
  then show "claim_bot c now pool =
          (Inl (BotPoolExhaustedException ''No bots available in pool''), pool)"
    by (simp add: claim_bot_def)
qed

theorem claim_bot_first_available_witness:
  "status (pool_example ! 1) = AVAILABLE
   \<and> status (pool_example ! 0) = ASSIGNED
   \<and> claim_bot 7 9 pool_example =
       (Inr ((bot ''b_bot'' AVAILABLE None 2)\<lparr>status := ASSIGNED, assigned_to_client_id := Some 7,
                                               assigned_at := Some 9\<rparr>),
        [bot ''a_bot'' ASSIGNED (Some 3) 1,
         (bot ''b_bot'' AVAILABLE None 2)\<lparr>status := ASSIGNED, assigned_to_client_id := Some 7,
                                          assigned_at := Some 9\<rparr>,
         bot ''c_bot'' AVAILABLE None 3])
   \<and> list_all (\<lambda>b. status b \<noteq> AVAILABLE) pool_exhausted
   \<and> claim_bot 7 9 pool_exhausted =
       (Inl (BotPoolExhaustedException ''No bots available in pool''), pool_exhausted)"
  using claim_bot_first_available [of 1 pool_example 7 9]
    claim_bot_first_available [of 0 pool_exhausted 7 9]
  by (simp add: pool_example_def pool_exhausted_def bot_def)


section \<open>Balance query and prompt compiler properties\<close>

text \<open>
  Claim C10. For a tenant with no credit account \<open>get_balance\<close> returns 0, and a message
  of Account intent is answered with "You currently have 0 credits.", the state unchanged.
\<close>

theorem get_balance_absent_is_zero:
  "credit_accounts s c = None \<longrightarrow>
     get_balance c s = 0
     \<and> (classify_intent lw text = ACCOUNT \<longrightarrow>
          dispatch_incoming_message lw rt env c text ch now later s =
            (Inr ''You currently have 0 credits.'', s))"
  by (simp add: get_balance_def dispatch_incoming_message_def route_def handler_map_def
        str_int_def digit_char_def)

theorem get_balance_absent_is_zero_witness:
  "credit_accounts empty_db 4 = None
   \<and> get_balance 4 empty_db = 0
   \<and> classify_intent ascii_lower ''what is my balance'' = ACCOUNT
   \<and> dispatch_incoming_message ascii_lower echo_runtime Map.empty 4 ''what is my balance'' ''sms'' 1 2 empty_db =
       (Inr ''You currently have 0 credits.'', empty_db)"
  using get_balance_absent_is_zero [of empty_db 4 ascii_lower "''what is my balance''" echo_runtime Map.empty "''sms''" 1 2]
  by (simp add: empty_db_def classify_intent_def SETUP_KEYWORDS_def ACCOUNT_KEYWORDS_def
        ascii_lower_def lower_char_def)

text \<open>
  Claim C9. \<open>compile\<close> is a function of the configuration alone (it takes no database
  and returns only the text), and of the configuration it reads the agent name, the
  personality, the language and the custom instructions only: two configurations that
  agree on these four fields compile to the same text.
\<close>

theorem compile_deterministic:
  "agent_name c1 = agent_name c2 \<Longrightarrow> personality c1 = personality c2 \<Longrightarrow>
   language c1 = language c2 \<Longrightarrow> custom_instructions c1 = custom_instructions c2 \<Longrightarrow>
   compile c1 = compile c2"
  by (simp add: compile_def)

theorem compile_deterministic_witness:
  "agent_name config_example = agent_name (config_example\<lparr>cfg_client_id := 2,
       compiled_system_prompt := Some ''stale'', cfg_updated_at := 9\<rparr>)
   \<and> compile config_example = compile (config_example\<lparr>cfg_client_id := 2,
       compiled_system_prompt := Some ''stale'', cfg_updated_at := 9\<rparr>)"
  using compile_deterministic [of config_example "config_example\<lparr>cfg_client_id := 2,
       compiled_system_prompt := Some ''stale'', cfg_updated_at := 9\<rparr>"]
  by simp

section \<open>Dispatch on the Task path\<close>

lemma dispatch_task:
  "classify_intent lw text = TASK \<Longrightarrow>
   dispatch_incoming_message lw rt env c text ch now later s =
     execute rt env c text ch now later s"
  by (simp add: dispatch_incoming_message_def route_def handler_map_def)

lemma check_and_deduct_cases:
  "check_and_deduct_credits c amt now s = (False, s)
   \<or> (\<exists>a. credit_accounts s c = Some a \<and>
        check_and_deduct_credits c amt now s =
          (True, s\<lparr>credit_accounts := (credit_accounts s)
                      (c \<mapsto> a\<lparr>balance := balance a - amt, total_used := total_used a + amt,
                                updated_at := now\<rparr>),
                    credit_transactions := credit_transactions s
                      @ [\<lparr>txn_client_id = c, amount = - amt, txn_type = DEDUCT,
                          description = Some (''Used '' @ str_int amt @ '' credits''),
                          created_at = now\<rparr>]\<rparr>))"
  by (simp add: check_and_deduct_credits_def Let_def split: option.splits)

lemma execute_deduct_failed:
  assumes "load_config c s = Some config"
    and "fst (check_and_deduct_credits c (get_credit_cost env ch) now s) = False"
  shows "execute rt env c text ch now later s = (Inr msg_out_of_credits, s)"
proof -
  from assms(2) check_and_deduct_cases [of c "get_credit_cost env ch" now s]
  have "check_and_deduct_credits c (get_credit_cost env ch) now s = (False, s)"
    by auto
  with assms(1) show ?thesis by (simp add: execute_def)
qed

lemma execute_deducted:
  assumes "load_config c s = Some config"
    and "check_and_deduct_credits c (get_credit_cost env ch) now s = (True, s1)"
  shows "execute rt env c text ch now later s =
     (case try_body rt config c text of
        Returns response \<Rightarrow> (Inr response, s1)
      | RaisesException e \<Rightarrow>
          (Inr msg_apology,
           refund_credits c (get_credit_cost env ch) (''Error: '' @ e) later s1)
      | RaisesBaseException e \<Rightarrow> (Inl (BaseException e), s1))"
  using assms by (simp add: execute_def Let_def)

lemma refund_after_deduct:
  assumes "credit_accounts s c = Some a"
    and "check_and_deduct_credits c amt now s = (True, s1)"
  shows "credit_transactions (refund_credits c amt reason later s1) =
           credit_transactions s
           @ [\<lparr>txn_client_id = c, amount = - amt, txn_type = DEDUCT,
                description = Some (''Used '' @ str_int amt @ '' credits''), created_at = now\<rparr>,
              \<lparr>txn_client_id = c, amount = amt, txn_type = REFUND,
                description = Some (''Refund: '' @ reason), created_at = later\<rparr>]"
    and "credit_transactions s1 =
           credit_transactions s
           @ [\<lparr>txn_client_id = c, amount = - amt, txn_type = DEDUCT,
                description = Some (''Used '' @ str_int amt @ '' credits''), created_at = now\<rparr>]"
  using assms
  by (auto simp: check_and_deduct_credits_def refund_credits_def Let_def split: if_splits)

text \<open>
  Claim C1, as amended. A dispatch of a Task message for a tenant with a configuration
  only appends transaction rows. When the deduction succeeds and a step of the guarded
  block (memory load, inference, memory write) fails with an exception derived from
  \<open>Exception\<close>, the reply is the apology and the rows appended are the DEDUCT row and
  exactly one REFUND row of the same amount; when the block succeeds only the DEDUCT row
  is appended. No dispatch, whatever the outcome of the block, appends more than one
  REFUND row, and one is appended only after a successful deduction. When the deduction
  fails the reply is the out-of-credits message and the state, with its transaction rows,
  is as it was.
\<close>

theorem refund_on_exception:
  assumes "classify_intent lw text = TASK"
    and "load_config c s = Some config"
    and "check_and_deduct_credits c (get_credit_cost env ch) now s = (ok, s1)"
    and "dispatch_incoming_message lw rt env c text ch now later s = (reply, s')"
  shows "credit_transactions s' = credit_transactions s @ new_transactions s s'
     \<and> (ok \<and> try_body rt config c text = RaisesException e \<longrightarrow>
          reply = Inr msg_apology
          \<and> new_transactions s s' =
              [\<lparr>txn_client_id = c, amount = - get_credit_cost env ch, txn_type = DEDUCT,
                description = Some (''Used '' @ str_int (get_credit_cost env ch) @ '' credits''),
                created_at = now\<rparr>,
               \<lparr>txn_client_id = c, amount = get_credit_cost env ch, txn_type = REFUND,
                description = Some (''Refund: Error: '' @ e), created_at = later\<rparr>])
     \<and> (ok \<and> try_body rt config c text = Returns r \<longrightarrow>
          reply = Inr r
          \<and> new_transactions s s' =
              [\<lparr>txn_client_id = c, amount = - get_credit_cost env ch, txn_type = DEDUCT,
                description = Some (''Used '' @ str_int (get_credit_cost env ch) @ '' credits''),
                created_at = now\<rparr>])
     \<and> length (filter (\<lambda>t. txn_type t = REFUND) (new_transactions s s')) \<le> 1
     \<and> (filter (\<lambda>t. txn_type t = REFUND) (new_transactions s s') \<noteq> [] \<longrightarrow> ok)
     \<and> (\<not> ok \<longrightarrow> reply = Inr msg_out_of_credits \<and> s' = s \<and> new_transactions s s' = [])"
proof (cases ok)
  case False
  with assms(3) have "fst (check_and_deduct_credits c (get_credit_cost env ch) now s) = False"
    by simp
  from execute_deduct_failed [OF assms(2) this]
  have "execute rt env c text ch now later s = (Inr msg_out_of_credits, s)" .
  with assms(1,4) have "reply = Inr msg_out_of_credits" "s' = s"
    by (simp_all add: dispatch_task)
  with False show ?thesis by (simp add: new_transactions_def)
next
  case True
  with assms(3) check_and_deduct_cases [of c "get_credit_cost env ch" now s]
  obtain a where a: "credit_accounts s c = Some a" by auto
  from True assms(3)
  have cd: "check_and_deduct_credits c (get_credit_cost env ch) now s = (True, s1)" by simp
  note ex = execute_deducted [OF assms(2) cd, of rt "text" later]
  note tx = refund_after_deduct [OF a cd]
  let ?deduct = "\<lparr>txn_client_id = c, amount = - get_credit_cost env ch, txn_type = DEDUCT,
                description = Some (''Used '' @ str_int (get_credit_cost env ch) @ '' credits''),
                created_at = now\<rparr>"
  show ?thesis
  proof (cases "try_body rt config c text")
    case (RaisesException e')
    with ex assms(1,4) have reply: "reply = Inr msg_apology"
      and s': "s' = refund_credits c (get_credit_cost env ch) (''Error: '' @ e') later s1"
      by (simp_all add: dispatch_task)
    have txs: "credit_transactions s' = credit_transactions s
           @ [?deduct,
              \<lparr>txn_client_id = c, amount = get_credit_cost env ch, txn_type = REFUND,
                description = Some (''Refund: Error: '' @ e'), created_at = later\<rparr>]"
      unfolding s' using tx(1) [of "''Error: '' @ e'" later] by simp
    then have new: "new_transactions s s' =
             [?deduct,
              \<lparr>txn_client_id = c, amount = get_credit_cost env ch, txn_type = REFUND,
                description = Some (''Refund: Error: '' @ e'), created_at = later\<rparr>]"
      by (simp add: new_transactions_def)
    from txs new have "credit_transactions s' = credit_transactions s @ new_transactions s s'"
      by simp
    with new reply RaisesException True show ?thesis by simp
  next
    case (Returns r')
    with ex assms(1,4) have reply: "reply = Inr r'" and s': "s' = s1"
      by (simp_all add: dispatch_task)
    have txs: "credit_transactions s' = credit_transactions s @ [?deduct]"
      unfolding s' using tx(2) by simp
    then have new: "new_transactions s s' = [?deduct]"
      by (simp add: new_transactions_def)
    from txs new have "credit_transactions s' = credit_transactions s @ new_transactions s s'"
      by simp
    with new reply Returns True show ?thesis by simp
  next
    case (RaisesBaseException e')
    with ex assms(1,4) have s': "s' = s1"
      by (simp_all add: dispatch_task)
    have txs: "credit_transactions s' = credit_transactions s @ [?deduct]"
      unfolding s' using tx(2) by simp
    then have new: "new_transactions s s' = [?deduct]"
      by (simp add: new_transactions_def)
    from txs new have "credit_transactions s' = credit_transactions s @ new_transactions s s'"
      by simp
    with new RaisesBaseException True show ?thesis by simp
  qed
qed

theorem refund_on_exception_witness:
  "classify_intent ascii_lower ''remind me at noon'' = TASK
   \<and> load_config 1 tenant_example = Some config_example
   \<and> fst (check_and_deduct_credits 1 (get_credit_cost Map.empty ''sms'') 5 tenant_example)
   \<and> try_body failing_runtime config_example 1 ''remind me at noon'' = RaisesException ''timeout''
   \<and> fst (dispatch_incoming_message ascii_lower failing_runtime Map.empty 1 ''remind me at noon''
            ''sms'' 5 6 tenant_example) = Inr msg_apology
   \<and> new_transactions tenant_example
        (snd (dispatch_incoming_message ascii_lower failing_runtime Map.empty 1
                ''remind me at noon'' ''sms'' 5 6 tenant_example)) =
       [\<lparr>txn_client_id = 1, amount = - 1, txn_type = DEDUCT,
         description = Some ''Used 1 credits'', created_at = 5\<rparr>,
        \<lparr>txn_client_id = 1, amount = 1, txn_type = REFUND,
         description = Some ''Refund: Error: timeout'', created_at = 6\<rparr>]
   \<and> get_balance 1 (snd (dispatch_incoming_message ascii_lower failing_runtime Map.empty 1
        ''remind me at noon'' ''sms'' 5 6 tenant_example)) = 1"
proof -
  have t: "classify_intent ascii_lower ''remind me at noon'' = TASK"
    by (simp add: classify_intent_def SETUP_KEYWORDS_def ACCOUNT_KEYWORDS_def HELP_KEYWORDS_def
        ascii_lower_def lower_char_def)
  have c: "load_config 1 tenant_example = Some config_example"
    by (simp add: load_config_def tenant_example_def)
  have tb: "try_body failing_runtime config_example 1 ''remind me at noon'' =
              RaisesException ''timeout''"
    by (simp add: try_body_def failing_runtime_def source_runtime_def)
  have cost: "get_credit_cost Map.empty ''sms'' = 1"
    by (simp add: get_credit_cost_def getenv_int_def)
  obtain ok s1 where d:
    "check_and_deduct_credits 1 (get_credit_cost Map.empty ''sms'') 5 tenant_example = (ok, s1)"
    by (cases "check_and_deduct_credits 1 (get_credit_cost Map.empty ''sms'') 5 tenant_example")
       blast
  have ok: "ok = True"
    using d by (simp add: cost check_and_deduct_credits_def tenant_example_def Let_def)
  obtain reply s' where r:
    "dispatch_incoming_message ascii_lower failing_runtime Map.empty 1 ''remind me at noon''
       ''sms'' 5 6 tenant_example = (reply, s')"
    by (cases "dispatch_incoming_message ascii_lower failing_runtime Map.empty 1
         ''remind me at noon'' ''sms'' 5 6 tenant_example") blast
  have bal: "get_balance 1 s' = 1"
    using r
    by (auto simp: dispatch_task [OF t] execute_def load_config_def try_body_def
          failing_runtime_def source_runtime_def get_credit_cost_def getenv_int_def
          check_and_deduct_credits_def refund_credits_def tenant_example_def get_balance_def
          Let_def)
  from refund_on_exception [OF t c d r, of "''timeout''"] t c d r ok tb bal cost
  show ?thesis by (simp add: str_int_def digit_char_def)
qed

text \<open>
  Claim C1 as stated fails. The tenant has one credit, the deduction succeeds, and the
  call of the runtime is cancelled while the engine awaits it: the exception is not
  derived from \<open>Exception\<close>, the handler does not run, the dispatch ends with that
  exception instead of the apology, and the only row appended is the DEDUCT row; the
  balance stays at 0.
\<close>

theorem refund_skipped_on_cancel_counterexample:
  "classify_intent ascii_lower ''remind me at noon'' = TASK
   \<and> load_config 1 tenant_example = Some config_example
   \<and> fst (check_and_deduct_credits 1 (get_credit_cost Map.empty ''sms'') 5 tenant_example)
   \<and> try_body cancelled_runtime config_example 1 ''remind me at noon'' =
       RaisesBaseException ''CancelledError''
   \<and> fst (dispatch_incoming_message ascii_lower cancelled_runtime Map.empty 1
            ''remind me at noon'' ''sms'' 5 6 tenant_example) =
       Inl (BaseException ''CancelledError'')
   \<and> new_transactions tenant_example
        (snd (dispatch_incoming_message ascii_lower cancelled_runtime Map.empty 1
                ''remind me at noon'' ''sms'' 5 6 tenant_example)) =
       [\<lparr>txn_client_id = 1, amount = - 1, txn_type = DEDUCT,
         description = Some ''Used 1 credits'', created_at = 5\<rparr>]
   \<and> get_balance 1 (snd (dispatch_incoming_message ascii_lower cancelled_runtime Map.empty 1
        ''remind me at noon'' ''sms'' 5 6 tenant_example)) = 0"
proof -
  have t: "classify_intent ascii_lower ''remind me at noon'' = TASK"
    by (simp add: classify_intent_def SETUP_KEYWORDS_def ACCOUNT_KEYWORDS_def HELP_KEYWORDS_def
        ascii_lower_def lower_char_def)
  have tb: "try_body cancelled_runtime config_example 1 ''remind me at noon'' =
              RaisesBaseException ''CancelledError''"
    by (simp add: try_body_def cancelled_runtime_def source_runtime_def)
  have cost: "get_credit_cost Map.empty ''sms'' = 1"
    by (simp add: get_credit_cost_def getenv_int_def)
  have c: "load_config 1 tenant_example = Some config_example"
    by (simp add: load_config_def tenant_example_def)
  have d: "check_and_deduct_credits 1 1 5 tenant_example =
     (True, tenant_example\<lparr>credit_accounts := (credit_accounts tenant_example)
           (1 \<mapsto> \<lparr>acct_client_id = 1, balance = 0, total_purchased = 1, total_used = 1,
                   updated_at = 5\<rparr>),
         credit_transactions := credit_transactions tenant_example
           @ [\<lparr>txn_client_id = 1, amount = - 1, txn_type = DEDUCT,
               description = Some ''Used 1 credits'', created_at = 5\<rparr>]\<rparr>)"
    by (simp add: check_and_deduct_credits_def tenant_example_def Let_def str_int_def
          digit_char_def)
  have e: "dispatch_incoming_message ascii_lower cancelled_runtime Map.empty 1
            ''remind me at noon'' ''sms'' 5 6 tenant_example =
     (Inl (BaseException ''CancelledError''),
      tenant_example\<lparr>credit_accounts := (credit_accounts tenant_example)
           (1 \<mapsto> \<lparr>acct_client_id = 1, balance = 0, total_purchased = 1, total_used = 1,
                   updated_at = 5\<rparr>),
         credit_transactions := credit_transactions tenant_example
           @ [\<lparr>txn_client_id = 1, amount = - 1, txn_type = DEDUCT,
               description = Some ''Used 1 credits'', created_at = 5\<rparr>]\<rparr>)"
    by (simp add: dispatch_task [OF t] execute_def c cost d tb)
  show ?thesis
    by (simp add: t c cost d tb e new_transactions_def get_balance_def)
qed


section \<open>Dispatch without a configuration; setup sessions\<close>

lemma handle_keeps_credits:
  "credit_accounts (snd (handle lw c m now s)) = credit_accounts s
   \<and> credit_transactions (snd (handle lw c m now s)) = credit_transactions s
   \<and> agent_configs (snd (handle lw c m now s)) = agent_configs s"
  by (simp add: handle_def continue_flow_def start_flow_def Let_def split: option.splits)

lemma execute_without_config:
  "load_config c s = None \<Longrightarrow> execute rt env c m ch now later s = (Inr msg_not_configured, s)"
  by (simp add: execute_def)

text \<open>
  Claim C5, as amended. Dispatch classifies the intent first and reads the agent
  configuration only on the Task path. For a tenant without a configuration no dispatch
  touches the credit accounts or the transaction rows, whatever the intent; a Task
  message gets the fixed configuration-error reply and leaves the whole state as it was,
  while Account, Help and Setup messages get their handler's reply.
\<close>

theorem dispatch_without_config:
  "load_config c s = None \<longrightarrow>
     credit_accounts (snd (dispatch_incoming_message lw rt env c text ch now later s)) =
       credit_accounts s
     \<and> credit_transactions (snd (dispatch_incoming_message lw rt env c text ch now later s)) =
       credit_transactions s
     \<and> (classify_intent lw text = TASK \<longrightarrow>
          dispatch_incoming_message lw rt env c text ch now later s = (Inr msg_not_configured, s))
     \<and> (classify_intent lw text = ACCOUNT \<longrightarrow>
          dispatch_incoming_message lw rt env c text ch now later s =
            (Inr (''You currently have '' @ str_int (get_balance c s) @ '' credits.''), s))
     \<and> (classify_intent lw text = HELP \<longrightarrow>
          dispatch_incoming_message lw rt env c text ch now later s =
            (Inr ''I can help with setup, tasks, and account questions. Ask me anything.'', s))
     \<and> (classify_intent lw text = SETUP \<longrightarrow>
          dispatch_incoming_message lw rt env c text ch now later s = handle lw c text now s)"
proof (intro impI)
  assume nc: "load_config c s = None"
  show "credit_accounts (snd (dispatch_incoming_message lw rt env c text ch now later s)) =
       credit_accounts s
     \<and> credit_transactions (snd (dispatch_incoming_message lw rt env c text ch now later s)) =
       credit_transactions s
     \<and> (classify_intent lw text = TASK \<longrightarrow>
          dispatch_incoming_message lw rt env c text ch now later s = (Inr msg_not_configured, s))
     \<and> (classify_intent lw text = ACCOUNT \<longrightarrow>
          dispatch_incoming_message lw rt env c text ch now later s =
            (Inr (''You currently have '' @ str_int (get_balance c s) @ '' credits.''), s))
     \<and> (classify_intent lw text = HELP \<longrightarrow>
          dispatch_incoming_message lw rt env c text ch now later s =
            (Inr ''I can help with setup, tasks, and account questions. Ask me anything.'', s))
     \<and> (classify_intent lw text = SETUP \<longrightarrow>
          dispatch_incoming_message lw rt env c text ch now later s = handle lw c text now s)"
  proof (cases "classify_intent lw text")
    case SETUP
    then have "dispatch_incoming_message lw rt env c text ch now later s = handle lw c text now s"
      by (simp add: dispatch_incoming_message_def route_def handler_map_def)
    with SETUP show ?thesis by (simp add: handle_keeps_credits)
  next
    case TASK
    then have "dispatch_incoming_message lw rt env c text ch now later s = (Inr msg_not_configured, s)"
      by (simp add: dispatch_incoming_message_def route_def handler_map_def
            execute_without_config [OF nc])
    with TASK show ?thesis by simp
  next
    case ACCOUNT
    then have "dispatch_incoming_message lw rt env c text ch now later s =
            (Inr (''You currently have '' @ str_int (get_balance c s) @ '' credits.''), s)"
      by (simp add: dispatch_incoming_message_def route_def handler_map_def)
    with ACCOUNT show ?thesis by simp
  next
    case HELP
    then have "dispatch_incoming_message lw rt env c text ch now later s =
            (Inr ''I can help with setup, tasks, and account questions. Ask me anything.'', s)"
      by (simp add: dispatch_incoming_message_def route_def handler_map_def)
    with HELP show ?thesis by simp
  qed
qed

theorem dispatch_without_config_witness:
  "load_config 4 empty_db = None
   \<and> classify_intent ascii_lower ''remind me at noon'' = TASK
   \<and> dispatch_incoming_message ascii_lower echo_runtime Map.empty 4 ''remind me at noon'' ''sms'' 1 2 empty_db =
       (Inr msg_not_configured, empty_db)"
proof -
  have a: "load_config 4 empty_db = None" by (simp add: load_config_def empty_db_def)
  have b: "classify_intent ascii_lower ''remind me at noon'' = TASK"
    by (simp add: classify_intent_def SETUP_KEYWORDS_def ACCOUNT_KEYWORDS_def HELP_KEYWORDS_def
        ascii_lower_def lower_char_def)
  from dispatch_without_config [of 4 empty_db ascii_lower echo_runtime Map.empty "''remind me at noon''" "''sms''" 1 2]
    a b show ?thesis by simp
qed

text \<open>
  Claim C5 as stated fails: for a tenant without a configuration an Account message is
  answered with the balance, not with the configuration-error message.
\<close>

theorem dispatch_config_first_counterexample:
  "load_config 4 empty_db = None
   \<and> classify_intent ascii_lower ''what is my balance'' = ACCOUNT
   \<and> dispatch_incoming_message ascii_lower echo_runtime Map.empty 4 ''what is my balance'' ''sms'' 1 2 empty_db =
       (Inr ''You currently have 0 credits.'', empty_db)
   \<and> ''You currently have 0 credits.'' \<noteq> msg_not_configured"
  by (simp add: load_config_def empty_db_def classify_intent_def SETUP_KEYWORDS_def
        ACCOUNT_KEYWORDS_def ascii_lower_def lower_char_def dispatch_incoming_message_def
        route_def handler_map_def get_balance_def str_int_def digit_char_def
        msg_not_configured_def)

text \<open>
  Claim C4 fails on the code. An active personality session at step 0 receives the
  answer "Alfred", which the validator accepts. The dispatch to the session raises
  \<open>AttributeError\<close>; the persisted answer map is still empty and the step index still 0.
\<close>

theorem continue_flow_answer_lost:
  "get_active_session 1 setup_example = Some 0
   \<and> flows (flow_name (setup_sessions setup_example ! 0)) = Some PersonalitySetupFlow
   \<and> validate ascii_lower PersonalitySetupFlow (current_step (setup_sessions setup_example ! 0)) ''Alfred'' = None
   \<and> handle ascii_lower 1 ''Alfred'' 5 setup_example = (Inl (AttributeError ''collected_data''), setup_example)
   \<and> collected_data_json (setup_sessions setup_example ! 0) = None
   \<and> current_step (setup_sessions setup_example ! 0) = 0"
  by (simp add: setup_example_def empty_db_def get_active_session_def flows_def handle_def
        continue_flow_def ascii_lower_def lower_char_def Let_def)

lemma continue_flow_keeps_answers:
  assumes "i < length (setup_sessions s)"
  shows "map collected_data_json (setup_sessions (snd (continue_flow lw c i m now s))) =
           map collected_data_json (setup_sessions s)
         \<and> map current_step (setup_sessions (snd (continue_flow lw c i m now s))) =
           map current_step (setup_sessions s)"
  using assms
  by (simp add: continue_flow_def Let_def map_update list_update_same_conv
           split: option.splits)

lemma cancel_words_are_task:
  "lw m \<in> set [''cancel'', ''stop'', ''exit''] \<Longrightarrow> classify_intent lw m = TASK"
  by (auto simp: classify_intent_def SETUP_KEYWORDS_def ACCOUNT_KEYWORDS_def HELP_KEYWORDS_def)

section \<open>Cancelling a setup session\<close>

lemma detect_flow_known:
  "detect_flow lw m = Some name \<Longrightarrow>
     (name = ''voip'' \<and> flows name = Some VoIPSetupFlow)
     \<or> (name = ''personality'' \<and> flows name = Some PersonalitySetupFlow)"
  by (auto simp: detect_flow_def flows_def Let_def split: if_splits)

lemma handle_cancel:
  assumes "get_active_session c s = Some i"
    and "lw m \<in> set [''cancel'', ''stop'', ''exit'']"
  shows "handle lw c m now s =
           (Inr msg_cancelled,
            s\<lparr>setup_sessions :=
                (setup_sessions s)[i := (setup_sessions s ! i)\<lparr>completed_at := Some now\<rparr>]\<rparr>)"
  using assms by (simp add: handle_def continue_flow_def Let_def)

lemma handle_no_active:
  assumes "get_active_session c s = None"
  shows "handle lw c m now s =
           (case detect_flow lw m of
              None \<Rightarrow> (Inr msg_menu, s)
            | Some name \<Rightarrow> start_flow c name now s)"
  using assms by (simp add: handle_def)

lemma no_active_after_cancel:
  assumes act: "get_active_session c s = Some i"
    and only: "\<forall>j < length (setup_sessions s). j \<noteq> i \<longrightarrow>
                 \<not> (ss_client_id (setup_sessions s ! j) = c
                    \<and> completed_at (setup_sessions s ! j) = None)"
  shows "get_active_session c
           (s\<lparr>setup_sessions :=
                (setup_sessions s)[i := (setup_sessions s ! i)\<lparr>completed_at := Some now\<rparr>]\<rparr>) = None"
proof -
  let ?P = "\<lambda>r. ss_client_id r = c \<and> completed_at r = None"
  let ?xs = "setup_sessions s"
  let ?ys = "?xs[i := (?xs ! i)\<lparr>completed_at := Some now\<rparr>]"
  from act have i: "i < length ?xs"
    using first_index_Some [of ?P ?xs i] by (simp add: get_active_session_def)
  have "\<not> ?P y" if "y \<in> set ?ys" for y
  proof -
    from that obtain j where j: "j < length ?ys" "y = ?ys ! j"
      by (auto simp: in_set_conv_nth)
    show ?thesis
    proof (cases "j = i")
      case True
      with j i show ?thesis by simp
    next
      case False
      with j only show ?thesis by simp
    qed
  qed
  then have "first_index ?P ?ys = None" by (simp add: first_index_None)
  then show ?thesis by (simp add: get_active_session_def)
qed

text \<open>
  Claim C7, as amended. On an active session, at any step of any flow, an input that
  lower-cases to "cancel", "stop" or "exit" gets the cancellation message and changes
  nothing but the session's completion time: no validation, no answer stored, the step
  as it was. The cancelled session is not the active session afterwards. When the tenant
  has no other open session, the next setup message starts a fresh session at step 0 if
  it names a flow (and gets that flow's first prompt), and otherwise gets the menu with
  no session created.
\<close>

theorem cancel_completes_session:
  assumes "get_active_session c s = Some i"
    and "lw m \<in> set [''cancel'', ''stop'', ''exit'']"
    and "handle lw c m now s = (r1, s1)"
  shows "r1 = Inr msg_cancelled
     \<and> s1 = s\<lparr>setup_sessions :=
               (setup_sessions s)[i := (setup_sessions s ! i)\<lparr>completed_at := Some now\<rparr>]\<rparr>
     \<and> completed_at (setup_sessions s1 ! i) = Some now
     \<and> get_active_session c s1 \<noteq> Some i
     \<and> ((\<forall>j < length (setup_sessions s). j \<noteq> i \<longrightarrow>
            \<not> (ss_client_id (setup_sessions s ! j) = c
               \<and> completed_at (setup_sessions s ! j) = None)) \<longrightarrow>
          get_active_session c s1 = None
          \<and> (detect_flow lw m2 = None \<longrightarrow> handle lw c m2 later s1 = (Inr msg_menu, s1))
          \<and> (\<forall>name. detect_flow lw m2 = Some name \<longrightarrow>
                map_option (\<lambda>f. Inr (get_step_message f 0)) (flows name) =
                  Some (fst (handle lw c m2 later s1))
                \<and> setup_sessions (snd (handle lw c m2 later s1)) =
                    setup_sessions s1
                    @ [\<lparr>ss_client_id = c, flow_name = name, current_step = 0,
                        collected_data_json = None, started_at = later,
                        completed_at = None\<rparr>]))"
proof -
  let ?P = "\<lambda>r. ss_client_id r = c \<and> completed_at r = None"
  from assms(1) have i: "i < length (setup_sessions s)"
    using first_index_Some [of ?P "setup_sessions s" i] by (simp add: get_active_session_def)
  from handle_cancel [of c s i lw m now, OF assms(1,2)] assms(3)
  have r1: "r1 = Inr msg_cancelled"
    and s1: "s1 = s\<lparr>setup_sessions :=
               (setup_sessions s)[i := (setup_sessions s ! i)\<lparr>completed_at := Some now\<rparr>]\<rparr>"
    by simp_all
  have fin: "completed_at (setup_sessions s1 ! i) = Some now"
    using i by (simp add: s1)
  have not_i: "get_active_session c s1 \<noteq> Some i"
  proof
    assume "get_active_session c s1 = Some i"
    then have "completed_at (setup_sessions s1 ! i) = None"
      using first_index_Some [of ?P "setup_sessions s1" i] by (simp add: get_active_session_def)
    with fin show False by simp
  qed
  have rest: "get_active_session c s1 = None
          \<and> (detect_flow lw m2 = None \<longrightarrow> handle lw c m2 later s1 = (Inr msg_menu, s1))
          \<and> (\<forall>name. detect_flow lw m2 = Some name \<longrightarrow>
                map_option (\<lambda>f. Inr (get_step_message f 0)) (flows name) =
                  Some (fst (handle lw c m2 later s1))
                \<and> setup_sessions (snd (handle lw c m2 later s1)) =
                    setup_sessions s1
                    @ [\<lparr>ss_client_id = c, flow_name = name, current_step = 0,
                        collected_data_json = None, started_at = later,
                        completed_at = None\<rparr>])"
    if only: "\<forall>j < length (setup_sessions s). j \<noteq> i \<longrightarrow>
            \<not> (ss_client_id (setup_sessions s ! j) = c
               \<and> completed_at (setup_sessions s ! j) = None)"
  proof -
    have none: "get_active_session c s1 = None"
      unfolding s1 by (rule no_active_after_cancel [OF assms(1) only])
    note h = handle_no_active [OF none, of lw m2 later]
    have menu: "detect_flow lw m2 = None \<longrightarrow> handle lw c m2 later s1 = (Inr msg_menu, s1)"
      using h by simp
    have fresh: "map_option (\<lambda>f. Inr (get_step_message f 0)) (flows name) =
                  Some (fst (handle lw c m2 later s1))
                \<and> setup_sessions (snd (handle lw c m2 later s1)) =
                    setup_sessions s1
                    @ [\<lparr>ss_client_id = c, flow_name = name, current_step = 0,
                        collected_data_json = None, started_at = later,
                        completed_at = None\<rparr>]"
      if d: "detect_flow lw m2 = Some name" for name
    proof -
      from detect_flow_known [OF d] obtain f where f: "flows name = Some f" by auto
      from h d have "handle lw c m2 later s1 = start_flow c name later s1" by simp
      with f show ?thesis by (simp add: start_flow_def Let_def)
    qed
    from none menu fresh show ?thesis by blast
  qed
  from r1 s1 fin not_i rest show ?thesis by blast
qed

theorem cancel_completes_session_witness:
  "get_active_session 1 setup_example = Some 0
   \<and> ascii_lower ''Cancel'' = ''cancel''
   \<and> handle ascii_lower 1 ''Cancel'' 5 setup_example = (Inr msg_cancelled, cancelled_example)
   \<and> length (setup_sessions setup_example) = 1
   \<and> detect_flow ascii_lower ''set up my phone'' = Some ''voip''
   \<and> get_active_session 1 cancelled_example = None
   \<and> fst (handle ascii_lower 1 ''set up my phone'' 6 cancelled_example) =
       Inr ''Do you have a VoIP number or should I create one for you? (reply: 'have' or 'create')''
   \<and> setup_sessions (snd (handle ascii_lower 1 ''set up my phone'' 6 cancelled_example)) =
       setup_sessions cancelled_example
       @ [\<lparr>ss_client_id = 1, flow_name = ''voip'', current_step = 0,
           collected_data_json = None, started_at = 6, completed_at = None\<rparr>]"
proof -
  have a: "get_active_session 1 setup_example = Some 0"
    by (simp add: get_active_session_def setup_example_def empty_db_def)
  have b: "ascii_lower ''Cancel'' = ''cancel''"
    by (simp add: ascii_lower_def lower_char_def)
  have c: "handle ascii_lower 1 ''Cancel'' 5 setup_example = (Inr msg_cancelled, cancelled_example)"
    using handle_cancel [of 1 setup_example 0 ascii_lower "''Cancel''" 5, OF a] b
    by (simp add: setup_example_def cancelled_example_def empty_db_def)
  have d: "detect_flow ascii_lower ''set up my phone'' = Some ''voip''"
    by (simp add: detect_flow_def ascii_lower_def lower_char_def)
  have e: "length (setup_sessions setup_example) = 1"
    by (simp add: setup_example_def empty_db_def)
  have f: "flows ''voip'' = Some VoIPSetupFlow" by (simp add: flows_def)
  from cancel_completes_session [of 1 setup_example 0 ascii_lower "''Cancel''" 5
      "Inr msg_cancelled" cancelled_example "''set up my phone''" 6] a b c d e f
  show ?thesis by (simp add: get_step_message_def)
qed

text \<open>
  Claim C7 as stated fails: after a cancellation the setup message "setup" gets the menu
  and starts no session.
\<close>

theorem cancel_then_setup_counterexample:
  "get_active_session 1 setup_example = Some 0
   \<and> handle ascii_lower 1 ''cancel'' 5 setup_example = (Inr msg_cancelled, cancelled_example)
   \<and> classify_intent ascii_lower ''setup'' = SETUP
   \<and> handle ascii_lower 1 ''setup'' 6 cancelled_example = (Inr msg_menu, cancelled_example)
   \<and> get_active_session 1 cancelled_example = None
   \<and> length (setup_sessions cancelled_example) = 1"
  by (simp add: get_active_session_def setup_example_def cancelled_example_def empty_db_def
        handle_def continue_flow_def detect_flow_def classify_intent_def SETUP_KEYWORDS_def
        ascii_lower_def lower_char_def Let_def)

end
